theory Spec2Isabelle
  imports Main "HOL-Library.Sublist"
begin

section \<open>The sources\<close>

text \<open>
  The program is an MCP server that offers tools to deploy to Cloud Run and to read logs.
  \<^item> \<open>src/lib/cli-args.js\<close> holds three modules one after the other: \<open>parseCliArgs\<close>
    (lines 17-47), the log queries \<open>getLogs\<close>, \<open>buildTimeRangeFilter\<close>,
    \<open>formatLogsAsTable\<close> (lines 63-368; the other files import them from
    \<open>lib/gcp-logs.js\<close>) and the tool catalogs with \<open>createToolFilter\<close> (lines 384-468;
    imported from \<open>lib/tool-registry.js\<close>).
  \<^item> \<open>src/unnamed/part_000\<close> holds the start-up of the server with \<open>getServer\<close>
    (lines 1-230) and the registration of the tools with their handlers,
    \<open>registerTools\<close> and \<open>registerToolsRemote\<close> (lines 246-993; imported from
    \<open>tools.js\<close>).
\<close>

section \<open>JavaScript values used by the program\<close>

text \<open>
  Strings are lists of characters (code units); \<open>s.length\<close> is \<open>length s\<close>.
  An exception thrown by the program is a value of type \<open>error\<close>, and a function that
  may throw returns \<open>error + 'a\<close> with \<open>Inl\<close> for the exception.
\<close>

datatype error = Error string | TypeError | RangeError

text \<open>The double quote, as a string of one character.\<close>

definition dquote :: string where
  "dquote = [CHR 0x22]"

text \<open>\<open>Array.prototype.join\<close> on an array of strings.\<close>

fun join :: "string \<Rightarrow> string list \<Rightarrow> string" where
  "join sep [] = []"
| "join sep [x] = x"
| "join sep (x # y # ys) = x @ sep @ join sep (y # ys)"

text \<open>
  A parameter documented as \<open>string[] | null\<close>. The guard
  \<open>tools && tools.length > 0\<close> of the source holds exactly when the array is there
  and has an element, that is when \<open>elems tools \<noteq> []\<close>; inside the guard the array is
  \<open>elems tools\<close>.
\<close>

definition elems :: "'a list option \<Rightarrow> 'a list" where
  "elems tools = (case tools of None \<Rightarrow> [] | Some xs \<Rightarrow> xs)"

section \<open>The tool catalog and the tool filter (lib/tool-registry.js)\<close>

definition LOCAL_TOOLS :: "string list" where
  "LOCAL_TOOLS =
    [''list_projects'', ''create_project'', ''list_services'', ''get_service'',
     ''get_service_log'', ''deploy_local_files'', ''deploy_local_folder'',
     ''deploy_file_contents'']"

definition REMOTE_TOOLS :: "string list" where
  "REMOTE_TOOLS =
    [''list_services'', ''get_service'', ''get_service_log'', ''deploy_file_contents'']"

definition availableTools :: "bool \<Rightarrow> string list" where
  "availableTools isRemote = (if isRemote then REMOTE_TOOLS else LOCAL_TOOLS)"

definition modeName :: "bool \<Rightarrow> string" where
  "modeName isRemote = (if isRemote then ''remote'' else ''local'')"

text \<open>\<open>tools.filter(tool => !availableTools.includes(tool))\<close>\<close>

definition invalidTools :: "bool \<Rightarrow> string list \<Rightarrow> string list" where
  "invalidTools isRemote tools = filter (\<lambda>tool. tool \<notin> set (availableTools isRemote)) tools"

text \<open>The message of the error thrown for the option \<open>flag\<close>.\<close>

definition invalidToolsMessage :: "string \<Rightarrow> bool \<Rightarrow> string list \<Rightarrow> string" where
  "invalidToolsMessage flag isRemote invalid =
     ''Invalid tool names in '' @ flag @ '': '' @ join '', '' invalid @ ''. '' @
     ''Available tools in '' @ modeName isRemote @ '' mode: '' @
     join '', '' (availableTools isRemote)"

text \<open>The closure \<open>shouldRegisterTool\<close> that \<open>createToolFilter\<close> returns.\<close>

definition shouldRegisterTool :: "string list option \<Rightarrow> string list option \<Rightarrow> string \<Rightarrow> bool" where
  "shouldRegisterTool enabledTools disabledTools toolName =
     (if elems enabledTools \<noteq> [] then toolName \<in> set (elems enabledTools)
      else if elems disabledTools \<noteq> [] then toolName \<notin> set (elems disabledTools)
      else True)"

definition createToolFilter ::
  "string list option \<Rightarrow> string list option \<Rightarrow> bool \<Rightarrow> error + (string \<Rightarrow> bool)" where
  "createToolFilter enabledTools disabledTools isRemote =
     (if elems enabledTools \<noteq> [] \<and> invalidTools isRemote (elems enabledTools) \<noteq> [] then
        Inl (Error (invalidToolsMessage ''--enabled-tools'' isRemote
                      (invalidTools isRemote (elems enabledTools))))
      else if elems disabledTools \<noteq> [] \<and> invalidTools isRemote (elems disabledTools) \<noteq> [] then
        Inl (Error (invalidToolsMessage ''--disabled-tools'' isRemote
                      (invalidTools isRemote (elems disabledTools))))
      else Inr (shouldRegisterTool enabledTools disabledTools))"


section \<open>Tool registration (tools.js) and server start-up (mcp-server.js)\<close>

text \<open>
  Each registration is guarded by \<open>!toolFilter || toolFilter(name)\<close>. The model of a
  registration function returns the names handed to \<open>server.tool\<close>, in the order of the
  source.
\<close>

definition permits :: "(string \<Rightarrow> bool) option \<Rightarrow> string \<Rightarrow> bool" where
  "permits toolFilter name = (case toolFilter of None \<Rightarrow> True | Some f \<Rightarrow> f name)"

definition registerTools :: "(string \<Rightarrow> bool) option \<Rightarrow> string list" where
  "registerTools toolFilter = filter (permits toolFilter)
     [''list_projects'', ''create_project'', ''list_services'', ''get_service'',
      ''get_service_log'', ''get_logs'', ''get_log_resource_types'',
      ''deploy_local_files'', ''deploy_local_folder'', ''deploy_file_contents'']"

text \<open>A JavaScript value that is a string or \<open>undefined\<close> is truthy when it is a non-empty string.\<close>

definition truthy :: "string option \<Rightarrow> bool" where
  "truthy v = (case v of None \<Rightarrow> False | Some s \<Rightarrow> s \<noteq> [])"

definition registerToolsRemote :: "string option \<Rightarrow> (string \<Rightarrow> bool) option \<Rightarrow> error + string list" where
  "registerToolsRemote defaultProjectId toolFilter =
     (if \<not> truthy defaultProjectId then
        Inl (Error ''Cannot register remote tools: GCP project ID could not be determined. Please ensure GOOGLE_CLOUD_PROJECT environment variable is set or the server is running on GCP.'')
      else Inr (filter (permits toolFilter)
        [''list_services'', ''get_service'', ''get_service_log'', ''get_logs'',
         ''get_log_resource_types'', ''deploy_file_contents'']))"

text \<open>
  \<open>getServer\<close>, from the parsed command line on: \<open>stdio\<close> is the result of
  \<open>shouldStartStdio()\<close>, \<open>envProjectId\<close> the environment's project and \<open>gcpProject\<close>
  the project of the metadata server (\<open>gcpInfo && gcpInfo.project\<close>). A failure of
  \<open>createToolFilter\<close> ends the process; the model returns its error.
\<close>

definition getServer ::
  "string list option \<Rightarrow> string list option \<Rightarrow> bool \<Rightarrow> string option \<Rightarrow> string option
     \<Rightarrow> error + string list" where
  "getServer enabledTools disabledTools stdio envProjectId gcpProject =
     (let effectiveProjectId = (if truthy envProjectId then envProjectId
                                else if truthy gcpProject then gcpProject else None);
          isRemote = (\<not> stdio \<and> truthy gcpProject)
      in case createToolFilter enabledTools disabledTools isRemote of
           Inl e \<Rightarrow> Inl e
         | Inr toolFilter \<Rightarrow>
             if stdio \<or> \<not> truthy gcpProject then Inr (registerTools (Some toolFilter))
             else registerToolsRemote effectiveProjectId (Some toolFilter))"

section \<open>Command-line options (lib/cli-args.js)\<close>

text \<open>
  \<open>minimist\<close> is a library outside the repository; its result is a parameter. For an
  option declared \<open>string\<close> the parsed value is \<open>undefined\<close> when the option is not on the
  command line, a string when it is given once (the empty string when it has no value)
  and an array of strings when it is given several times (under its name or its alias).
\<close>

datatype argValue = Absent | Given string | Repeated "string list"

text \<open>
  The white space that \<open>String.prototype.trim\<close> removes, among the code units below
  256: tab, line feed, vertical tab, form feed, carriage return, space and no-break space.
\<close>

definition isWhiteSpace :: "char \<Rightarrow> bool" where
  "isWhiteSpace c = (of_char c \<in> {9, 10, 11, 12, 13, 32, 160 :: nat})"

definition trim :: "string \<Rightarrow> string" where
  "trim s = rev (dropWhile isWhiteSpace (rev (dropWhile isWhiteSpace s)))"

text \<open>\<open>s.split(sep)\<close> for a separator of one character: one piece more than separators.\<close>

fun split_str :: "char \<Rightarrow> string \<Rightarrow> string list" where
  "split_str sep [] = [[]]"
| "split_str sep (c # cs) =
     (if c = sep then [] # split_str sep cs
      else (case split_str sep cs of
              [] \<Rightarrow> [[c]]
            | piece # pieces \<Rightarrow> (c # piece) # pieces))"

text \<open>\<open>value.split(',').map(t => t.trim()).filter(t => t.length > 0)\<close>\<close>

definition toolNames :: "string \<Rightarrow> string list" where
  "toolNames v = filter (\<lambda>t. length t > 0) (map trim (split_str CHR '','' v))"

text \<open>
  \<open>args[name] ? args[name].split(',')... : null\<close>: the empty string is falsy; an array
  is truthy and has no method \<open>split\<close>, so the call throws a \<open>TypeError\<close>.
\<close>

definition toolList :: "argValue \<Rightarrow> error + string list option" where
  "toolList v =
     (case v of
        Absent \<Rightarrow> Inr None
      | Given s \<Rightarrow> if s = [] then Inr None else Inr (Some (toolNames s))
      | Repeated vs \<Rightarrow> Inl TypeError)"

definition parseCliArgs :: "argValue \<Rightarrow> argValue \<Rightarrow> error + (string list option \<times> string list option)" where
  "parseCliArgs enabledArg disabledArg =
     (case toolList enabledArg of
        Inl e \<Rightarrow> Inl e
      | Inr enabledTools \<Rightarrow>
          (case toolList disabledArg of
             Inl e \<Rightarrow> Inl e
           | Inr disabledTools \<Rightarrow>
               if elems enabledTools \<noteq> [] \<and> elems disabledTools \<noteq> [] then
                 Inl (Error ''Cannot specify both --enabled-tools and --disabled-tools. Please use only one.'')
               else Inr (enabledTools, disabledTools)))"

section \<open>Dates (the runtime's \<open>Date\<close>)\<close>

text \<open>
  A \<open>Date\<close> holds a time value: milliseconds since 1970-01-01T00:00:00Z, valid when its
  magnitude is at most 8.64e15, and invalid (NaN) otherwise. The source computes with
  doubles; the model computes with integers. Doubles hold every integer of magnitude up
  to \<open>2 ^ 53\<close> exactly, so the two agree wherever all intermediate values stay below
  that bound.
\<close>

text \<open>The decimal digits of \<open>n\<close>, \<open>w\<close> of them, with leading zeros.\<close>

definition digitsN :: "nat \<Rightarrow> nat \<Rightarrow> string" where
  "digitsN w n = map (\<lambda>i. ''0123456789'' ! ((n div 10 ^ i) mod 10)) (rev [0..<w])"

text \<open>
  The proleptic Gregorian date of a day number. The argument \<open>z\<close> of the first four
  functions counts days from 0000-03-01; it falls in a cycle of 400 years (146097 days),
  at day \<open>dayOfEra\<close> of the cycle, in year \<open>yearOfEra\<close> of the cycle, at day
  \<open>dayOfYear\<close> of a year that starts in March, in month \<open>monthFromMarch\<close> of that year.
\<close>

definition dayOfEra :: "int \<Rightarrow> int" where
  "dayOfEra z = z mod 146097"

definition yearOfEra :: "int \<Rightarrow> int" where
  "yearOfEra z =
     (dayOfEra z - dayOfEra z div 1460 + dayOfEra z div 36524 - dayOfEra z div 146096) div 365"

definition dayOfYear :: "int \<Rightarrow> int" where
  "dayOfYear z = dayOfEra z - (365 * yearOfEra z + yearOfEra z div 4 - yearOfEra z div 100)"

definition monthFromMarch :: "int \<Rightarrow> int" where
  "monthFromMarch z = (5 * dayOfYear z + 2) div 153"

text \<open>Day, month and year of the day number \<open>days\<close> counted from 1970-01-01.\<close>

definition dateDay :: "int \<Rightarrow> int" where
  "dateDay days =
     dayOfYear (days + 719468) - (153 * monthFromMarch (days + 719468) + 2) div 5 + 1"

definition dateMonth :: "int \<Rightarrow> int" where
  "dateMonth days =
     (if monthFromMarch (days + 719468) < 10 then monthFromMarch (days + 719468) + 3
      else monthFromMarch (days + 719468) - 9)"

definition dateYear :: "int \<Rightarrow> int" where
  "dateYear days =
     yearOfEra (days + 719468) + (days + 719468) div 146097 * 400 +
     (if dateMonth days \<le> 2 then 1 else 0)"

text \<open>
  The text \<open>toISOString\<close> gives for a valid time value: \<open>YYYY-MM-DDTHH:mm:ss.sssZ\<close>, the year
  written with a sign and six digits when it is outside 0..9999.
\<close>

definition isoYear :: "int \<Rightarrow> string" where
  "isoYear y =
     (if 0 \<le> y \<and> y \<le> 9999 then digitsN 4 (nat y)
      else if y < 0 then ''-'' @ digitsN 6 (nat (- y))
      else ''+'' @ digitsN 6 (nat y))"

definition isoText :: "int \<Rightarrow> string" where
  "isoText t =
     isoYear (dateYear (t div 86400000)) @ ''-'' @
     digitsN 2 (nat (dateMonth (t div 86400000))) @ ''-'' @
     digitsN 2 (nat (dateDay (t div 86400000))) @ ''T'' @
     digitsN 2 (nat (t mod 86400000 div 3600000)) @ '':'' @
     digitsN 2 (nat (t mod 86400000 div 60000 mod 60)) @ '':'' @
     digitsN 2 (nat (t mod 86400000 div 1000 mod 60)) @ ''.'' @
     digitsN 3 (nat (t mod 86400000 mod 1000)) @ ''Z''"

text \<open>
  \<open>new Date(t).toISOString()\<close>: the constructor clips a time value beyond the valid range
  to NaN, and \<open>toISOString\<close> throws a \<open>RangeError\<close> on an invalid date.
\<close>

definition toISOString :: "int \<Rightarrow> error + string" where
  "toISOString t = (if \<bar>t\<bar> > 8640000000000000 then Inl RangeError else Inr (isoText t))"

section \<open>Log queries (lib/gcp-logs.js)\<close>

definition isDigit :: "char \<Rightarrow> bool" where
  "isDigit c = (48 \<le> (of_char c :: nat) \<and> (of_char c :: nat) \<le> 57)"

text \<open>
  \<open>timeRange.match(/^(\d+)([hmd])$/)\<close>: the groups (amount, unit) when the whole string
  is one or more decimal digits followed by one of \<open>h\<close>, \<open>m\<close>, \<open>d\<close>.
\<close>

definition matchTimeRange :: "string \<Rightarrow> (string \<times> char) option" where
  "matchTimeRange timeRange =
     (case rev timeRange of
        [] \<Rightarrow> None
      | unit # rest \<Rightarrow>
          if rest \<noteq> [] \<and> list_all isDigit rest \<and> unit \<in> set ''hmd''
          then Some (rev rest, unit) else None)"

text \<open>\<open>parseInt\<close> on a string of decimal digits.\<close>

definition parseInt :: "string \<Rightarrow> int" where
  "parseInt amount = foldl (\<lambda>acc c. 10 * acc + (int (of_char c) - 48)) 0 amount"

text \<open>
  \<open>buildTimeRangeFilter\<close>, with the instant \<open>now\<close> of \<open>new Date()\<close> as a parameter. The
  result is \<open>Inr None\<close> for the \<open>null\<close> the source returns (after a warning on the
  console), \<open>Inr (Some clause)\<close> for a clause, and \<open>Inl\<close> for an exception.
\<close>

definition buildTimeRangeFilter :: "int \<Rightarrow> string \<Rightarrow> error + string option" where
  "buildTimeRangeFilter now timeRange =
     (case matchTimeRange timeRange of
        None \<Rightarrow> Inr None
      | Some (amount, unit) \<Rightarrow>
          (let v = parseInt amount;
               startTime =
                 (if unit = CHR ''h'' then Some (now - v * 60 * 60 * 1000)
                  else if unit = CHR ''d'' then Some (now - v * 24 * 60 * 60 * 1000)
                  else if unit = CHR ''m'' then Some (now - v * 60 * 1000)
                  else None)
           in case startTime of
                None \<Rightarrow> Inr None
              | Some t \<Rightarrow>
                  (case toISOString t of
                     Inl e \<Rightarrow> Inl e
                   | Inr isoString \<Rightarrow> Inr (Some (''timestamp>='' @ dquote @ isoString @ dquote)))))"

text \<open>
  The options of \<open>getLogs\<close>; \<open>None\<close> is a property that is \<open>undefined\<close>. The fields carry
  the prefix \<open>opt_\<close> (\<open>filter\<close> is a list function of the library).
\<close>

record LogQueryOptions =
  opt_filter :: "string option"
  opt_resourceType :: "string option"
  opt_severity :: "string option"
  opt_timeRange :: "string option"
  opt_limit :: "int option"
  opt_orderBy :: "string option"
  opt_pageToken :: "string option"

text \<open>The request handed to \<open>loggingClient.getEntries\<close>.\<close>

record entriesRequest =
  req_filter :: string
  req_orderBy :: string
  req_pageSize :: int
  req_pageToken :: "string option"

text \<open>A destructuring default: it replaces \<open>undefined\<close> only.\<close>

definition orDefault :: "'a option \<Rightarrow> 'a \<Rightarrow> 'a" where
  "orDefault v d = (case v of None \<Rightarrow> d | Some x \<Rightarrow> x)"

text \<open>
  The array \<open>filterParts\<close> of \<open>getLogs\<close> after the four pushes. \<open>if (filter)\<close> and the
  other guards test truthiness: a string counts when it is not empty.
\<close>

definition filterParts :: "int \<Rightarrow> LogQueryOptions \<Rightarrow> error + string list" where
  "filterParts now options =
     (let severity = orDefault (opt_severity options) ''DEFAULT'';
          parts1 = (if truthy (opt_filter options)
                    then [''('' @ elems (opt_filter options) @ '')''] else []);
          parts2 = parts1 @ (if truthy (opt_resourceType options)
                    then [''resource.type='' @ dquote @ elems (opt_resourceType options) @ dquote] else []);
          parts3 = parts2 @ (if severity \<noteq> [] \<and> severity \<noteq> ''DEFAULT''
                    then [''severity>='' @ severity] else [])
      in if truthy (opt_timeRange options) then
           (case buildTimeRangeFilter now (elems (opt_timeRange options)) of
              Inl e \<Rightarrow> Inl e
            | Inr None \<Rightarrow> Inr parts3
            | Inr (Some timeFilter) \<Rightarrow>
                if timeFilter \<noteq> [] then Inr (parts3 @ [timeFilter]) else Inr parts3)
         else Inr parts3)"

text \<open>
  \<open>getLogs\<close> up to the call of the logging client: the request it sends, or the exception
  that its \<open>catch\<close> block logs and throws again.
\<close>

definition getLogs_request :: "int \<Rightarrow> LogQueryOptions \<Rightarrow> error + entriesRequest" where
  "getLogs_request now options =
     (case filterParts now options of
        Inl e \<Rightarrow> Inl e
      | Inr parts \<Rightarrow>
          Inr \<lparr> req_filter = join '' AND '' parts,
                req_orderBy = orDefault (opt_orderBy options) ''timestamp desc'',
                req_pageSize = min (orDefault (opt_limit options) 100) 1000,
                req_pageToken = (if truthy (opt_pageToken options)
                                 then opt_pageToken options else None) \<rparr>)"

subsection \<open>The filter and the time range in the words of the specification\<close>

text \<open>
  The clauses as the specification lists them, each for an option that is present; the
  time-range clause is given.
\<close>

definition claimedClauses :: "LogQueryOptions \<Rightarrow> string option \<Rightarrow> string list" where
  "claimedClauses options timeClause =
     (case opt_filter options of None \<Rightarrow> [] | Some f \<Rightarrow> [''('' @ f @ '')'']) @
     (case opt_resourceType options of None \<Rightarrow> []
      | Some r \<Rightarrow> [''resource.type='' @ dquote @ r @ dquote]) @
     (case opt_severity options of None \<Rightarrow> []
      | Some s \<Rightarrow> if s = ''DEFAULT'' then [] else [''severity>='' @ s]) @
     (case timeClause of None \<Rightarrow> [] | Some c \<Rightarrow> [c])"

text \<open>The same, each clause for an option that is present and not the empty string.\<close>

definition suppliedClauses :: "LogQueryOptions \<Rightarrow> string option \<Rightarrow> string list" where
  "suppliedClauses options timeClause =
     (case opt_filter options of Some (c # cs) \<Rightarrow> [''('' @ c # cs @ '')''] | _ \<Rightarrow> []) @
     (case opt_resourceType options of
        Some (c # cs) \<Rightarrow> [''resource.type='' @ dquote @ c # cs @ dquote] | _ \<Rightarrow> []) @
     (case opt_severity options of
        Some (c # cs) \<Rightarrow> if c # cs = ''DEFAULT'' then [] else [''severity>='' @ c # cs]
      | _ \<Rightarrow> []) @
     (case timeClause of None \<Rightarrow> [] | Some c \<Rightarrow> [c])"

text \<open>The length of a unit of the time range in milliseconds: hours, minutes, days.\<close>

definition unitMillis :: "char \<Rightarrow> int" where
  "unitMillis u = (if u = CHR ''h'' then 3600000 else if u = CHR ''m'' then 60000 else 86400000)"

subsection \<open>The tool lists in the words of the specification\<close>

text \<open>
  The value of an option split on commas, each token trimmed, the empty tokens dropped;
  no token for an option that is absent.
\<close>

fun tokens :: "argValue \<Rightarrow> string list" where
  "tokens Absent = []"
| "tokens (Given v) = filter (\<lambda>t. t \<noteq> []) (map trim (split_str CHR '','' v))"
| "tokens (Repeated vs) = []"

text \<open>The list of an option given once with a value that is not empty, and \<open>null\<close> otherwise.\<close>

fun expectedList :: "argValue \<Rightarrow> string list option" where
  "expectedList (Given (c # cs)) = Some (tokens (Given (c # cs)))"
| "expectedList v = None"

section \<open>Rendering log entries as a table (lib/gcp-logs.js)\<close>

text \<open>
  The fields of a normalized log entry that \<open>formatLogsAsTable\<close> reads, all strings
  (\<open>formatLogEntry\<close> sets \<open>timestamp\<close> to an ISO text or to \<open>N/A\<close>).
\<close>

record LogEntry =
  timestamp :: string
  severity :: string
  resourceType :: string
  logData :: string

definition headers :: "string list" where
  "headers = [''Timestamp'', ''Severity'', ''Resource'', ''Message'']"

text \<open>\<open>s.substring(0, n)\<close> is \<open>take n s\<close>; one row of cells per entry.\<close>

definition tableRow :: "LogEntry \<Rightarrow> string list" where
  "tableRow entry =
     [take 19 (timestamp entry),
      severity entry,
      resourceType entry,
      take 100 (logData entry) @ (if length (logData entry) > 100 then ''...'' else [])]"

text \<open>\<open>Math.max(header.length, ...rows.map(row => row[i].length))\<close>; every row has four cells.\<close>

definition colWidth :: "string list list \<Rightarrow> nat \<Rightarrow> nat" where
  "colWidth rows i = fold max (map (\<lambda>row. length (row ! i)) rows) (length (headers ! i))"

definition colWidths :: "string list list \<Rightarrow> nat list" where
  "colWidths rows = map (colWidth rows) [0..<length headers]"

text \<open>\<open>s.padEnd(n)\<close>: spaces are appended until the length is \<open>n\<close>.\<close>

definition padEnd :: "string \<Rightarrow> nat \<Rightarrow> string" where
  "padEnd s n = s @ replicate (n - length s) CHR '' ''"

text \<open>\<open>cells.map((cell, i) => cell.padEnd(colWidths[i])).join(' | ')\<close>\<close>

definition tableLine :: "nat list \<Rightarrow> string list \<Rightarrow> string" where
  "tableLine widths cells = join '' | '' (map (\<lambda>(cell, w). padEnd cell w) (zip cells widths))"

definition separator :: "nat list \<Rightarrow> string" where
  "separator widths = join ''-+-'' (map (\<lambda>width. replicate width CHR ''-'') widths)"

definition newline :: string where
  "newline = [CHR 0x0A]"

definition formatLogsAsTable :: "LogEntry list \<Rightarrow> string" where
  "formatLogsAsTable logEntries =
     (if length logEntries = 0 then ''No logs found.''
      else
        (let rows = map tableRow logEntries;
             widths = colWidths rows;
             headerRow = tableLine widths headers;
             dataRows = map (tableLine widths) rows
         in join newline (headerRow # separator widths # dataRows)))"

section \<open>Tool handlers (tools.js)\<close>

text \<open>
  A handler either returns a payload \<open>{content: [{type: 'text', text}]}\<close>, modelled by its
  text (\<open>Inr text\<close>), or throws (\<open>Inl\<close>): the exception then leaves the handler and
  reaches the caller of the handler, which is the server the tool was registered with.
  An argument that may be \<open>undefined\<close> is an option, and \<open>show_arg\<close> is its text inside a
  template literal.
\<close>

definition show_arg :: "string option \<Rightarrow> string" where
  "show_arg v = (case v of None \<Rightarrow> ''undefined'' | Some s \<Rightarrow> s)"

subsection \<open>\<open>get_service_log\<close>\<close>

text \<open>
  One answer of \<open>getServiceLogs\<close> (lib/cloud-run-services.js, outside the sources): the log
  text of the page, and the request options of the next page when there is one.
\<close>

record 'r serviceLogsResponse =
  logs :: "string option"
  requestOptions :: "'r option"

text \<open>
  The \<open>do ... while (requestOptions)\<close> loop of the handler. The backend is a parameter: a
  function of its own state \<open>st\<close> and of the request options, which answers or throws
  an error with a message. The loop keeps the list \<open>calls\<close> of the request options it
  passed, in order. It runs as long as the backend names a next page, so it is a partial
  function: \<open>None\<close> is a run that never ends.
\<close>

partial_function (option) serviceLogsLoop ::
  "('b \<Rightarrow> 'r option \<Rightarrow> (string + 'r serviceLogsResponse) \<times> 'b) \<Rightarrow> string \<Rightarrow>
   'b \<Rightarrow> 'r option \<Rightarrow> string list \<Rightarrow> 'r option list \<Rightarrow> (string \<times> 'r option list \<times> 'b) option"
where
  "serviceLogsLoop getServiceLogs context st requestOpts allLogs calls =
     (case getServiceLogs st requestOpts of
        (Inl message, st') \<Rightarrow>
          Some (''Error getting Logs for '' @ context @ '': '' @ message,
                calls @ [requestOpts], st')
      | (Inr response, st') \<Rightarrow>
          (let allLogs' = (if truthy (logs response)
                           then allLogs @ [elems (logs response)] else allLogs)
           in case requestOptions response of
                Some next \<Rightarrow>
                  serviceLogsLoop getServiceLogs context st' (Some next) allLogs'
                    (calls @ [requestOpts])
              | None \<Rightarrow> Some (join newline allLogs', calls @ [requestOpts], st')))"





subsection \<open>The deployment tools\<close>

record 'f deployRequest =
  d_projectId :: string
  d_serviceName :: "string option"
  d_region :: "string option"
  d_files :: "'f list"
  d_skipIamCheck :: bool

text \<open>
  The object handed to \<open>deploy\<close>; its fields carry the prefix \<open>d_\<close>, and \<open>'f\<close> is
  the type of a file: a path for \<open>deploy_local_files\<close>, a name with a content for
  \<open>deploy_file_contents\<close>.

  \<open>deploy\<close> (lib/cloud-run-deploy.js, outside the sources) is a parameter: it gives the
  URI of the service (\<open>Inr\<close>) or throws an error, of which \<open>Inl\<close> holds the text
  \<open>error.message || error\<close>.

  The arguments of \<open>deploy_local_files\<close>: \<open>project\<close> is \<open>None\<close> when it is not a string
  and \<open>files\<close> is \<open>None\<close> when it is not an array.
\<close>

definition deployedText :: "string option \<Rightarrow> string \<Rightarrow> string option \<Rightarrow> string \<Rightarrow> string" where
  "deployedText service project region uri =
     ''Cloud Run service '' @ show_arg service @ '' deployed in project '' @ project @ newline @
     ''Cloud Console: https://console.cloud.google.com/run/detail/'' @ show_arg region @ ''/'' @
     show_arg service @ ''?project='' @ project @ newline @ ''Service URL: '' @ uri"

definition deploy_local_files ::
  "(string deployRequest \<Rightarrow> string + string) \<Rightarrow> bool \<Rightarrow>
   string option \<Rightarrow> string option \<Rightarrow> string option \<Rightarrow> string list option \<Rightarrow> error + string" where
  "deploy_local_files deploy skipIam project region service files =
     (case project of
        None \<Rightarrow> Inl (Error ''Project must specified, please prompt the user for a valid existing Google Cloud project ID.'')
      | Some p \<Rightarrow>
          (case files of
             None \<Rightarrow> Inl (Error ''Files must specified'')
           | Some fs \<Rightarrow>
               if length fs = 0 then Inl (Error ''No files specified for deployment'')
               else
                 (case deploy \<lparr> d_projectId = p, d_serviceName = service, d_region = region,
                                 d_files = fs, d_skipIamCheck = skipIam \<rparr> of
                    Inr uri \<Rightarrow> Inr (deployedText service p region uri)
                  | Inl message \<Rightarrow> Inr (''Error deploying to Cloud Run: '' @ message))))"

text \<open>
  \<open>deploy_file_contents\<close> as \<open>registerTools\<close> registers it. A file is an object with a
  \<open>filename\<close> and an optional \<open>content\<close>; the loop over the files throws at the first
  file whose content is falsy.
\<close>

record fileContent =
  filename :: string
  content :: "string option"

definition deploy_file_contents ::
  "(fileContent deployRequest \<Rightarrow> string + string) \<Rightarrow> bool \<Rightarrow>
   string option \<Rightarrow> string option \<Rightarrow> string option \<Rightarrow> fileContent list option \<Rightarrow> error + string" where
  "deploy_file_contents deploy skipIam project region service files =
     (case project of
        None \<Rightarrow> Inl (Error ''Project must specified, please prompt the user for a valid existing Google Cloud project ID.'')
      | Some p \<Rightarrow>
          (case files of
             None \<Rightarrow> Inl (Error ''Files must be specified'')
           | Some fs \<Rightarrow>
               if length fs = 0 then Inl (Error ''No files specified for deployment'')
               else
                 (case find (\<lambda>file. \<not> truthy (content file)) fs of
                    Some file \<Rightarrow> Inl (Error (''File '' @ filename file @ '' must have content''))
                  | None \<Rightarrow>
                      (case deploy \<lparr> d_projectId = p, d_serviceName = service, d_region = region,
                                      d_files = fs, d_skipIamCheck = skipIam \<rparr> of
                         Inr uri \<Rightarrow> Inr (deployedText service p region uri)
                       | Inl message \<Rightarrow> Inr (''Error deploying to Cloud Run: '' @ message)))))"

text \<open>
  \<open>get_log_resource_types\<close>, a neighbour of the deployment tools in \<open>registerTools\<close>, with
  \<open>getResourceTypes\<close> as a parameter (it answers with the list of types or throws).
\<close>

definition get_log_resource_types ::
  "(string \<Rightarrow> string + string list) \<Rightarrow> string option \<Rightarrow> error + string" where
  "get_log_resource_types getResourceTypes project =
     (case project of
        None \<Rightarrow> Inr ''Error: Project ID must be provided.''
      | Some p \<Rightarrow>
          (case getResourceTypes p of
             Inr resourceTypes \<Rightarrow>
               Inr (''Available resource types for logging in project '' @ p @ '':'' @ newline @
                    join newline (map (\<lambda>ty. ''- '' @ ty) resourceTypes) @ newline @ newline @
                    ''Use these with the get_logs tool's resourceType parameter to filter logs by specific resource types.'')
           | Inl message \<Rightarrow>
               Inr (''Error getting resource types for project '' @ p @ '': '' @ message)))"

section \<open>Properties of the tool filter\<close>

lemma createToolFilter_Inr:
  "createToolFilter enabledTools disabledTools isRemote = Inr p \<Longrightarrow>
     p = shouldRegisterTool enabledTools disabledTools"
  by (simp add: createToolFilter_def split: if_splits)

text \<open>
  C1. Whenever \<open>createToolFilter\<close> accepts its arguments and returns a predicate, the
  predicate answers, for every tool name: membership in \<open>enabledTools\<close> when that list is
  non-empty; otherwise non-membership in \<open>disabledTools\<close> when that list is non-empty;
  otherwise true.
\<close>

theorem createToolFilter_predicate:
  assumes "createToolFilter enabledTools disabledTools isRemote = Inr predicate"
  shows "predicate n =
           (case enabledTools of
              Some (e # es) \<Rightarrow> n \<in> set (e # es)
            | _ \<Rightarrow> (case disabledTools of
                       Some (d # ds) \<Rightarrow> n \<notin> set (d # ds)
                     | _ \<Rightarrow> True))"
  using createToolFilter_Inr [OF assms]
  by (simp add: shouldRegisterTool_def elems_def split: option.splits list.splits)

theorem createToolFilter_predicate_witness:
  "createToolFilter (Some [''list_services'', ''get_service'']) None False
     = Inr (shouldRegisterTool (Some [''list_services'', ''get_service'']) None)
   \<and> shouldRegisterTool (Some [''list_services'', ''get_service'']) None ''get_service''
   \<and> \<not> shouldRegisterTool (Some [''list_services'', ''get_service'']) None ''list_projects''"
proof -
  have accepted:
    "createToolFilter (Some [''list_services'', ''get_service'']) None False
       = Inr (shouldRegisterTool (Some [''list_services'', ''get_service'']) None)"
    by (simp add: createToolFilter_def elems_def invalidTools_def availableTools_def
        LOCAL_TOOLS_def)
  show ?thesis
    using accepted createToolFilter_predicate [OF accepted, of "''get_service''"]
      createToolFilter_predicate [OF accepted, of "''list_projects''"]
    by simp
qed

section \<open>Rejected tool names\<close>









section \<open>The logging tools and the catalogs\<close>

lemma in_filter_iff:
  "t \<in> set (filter P xs) \<longleftrightarrow> P t \<and> t \<in> set xs"
  by auto

lemma log_tools_not_available:
  "''get_logs'' \<notin> set (availableTools isRemote)"
  "''get_log_resource_types'' \<notin> set (availableTools isRemote)"
  by (simp_all add: availableTools_def LOCAL_TOOLS_def REMOTE_TOOLS_def)

lemma registerTools_iff:
  "t \<in> set (registerTools f) \<longleftrightarrow>
     permits f t \<and> t \<in> set [''list_projects'', ''create_project'', ''list_services'', ''get_service'',
      ''get_service_log'', ''get_logs'', ''get_log_resource_types'',
      ''deploy_local_files'', ''deploy_local_folder'', ''deploy_file_contents'']"
  by (simp only: registerTools_def in_filter_iff)

lemma registerToolsRemote_iff:
  assumes "registerToolsRemote pid f = Inr ts"
  shows "t \<in> set ts \<longleftrightarrow>
     permits f t \<and> t \<in> set [''list_services'', ''get_service'', ''get_service_log'', ''get_logs'',
         ''get_log_resource_types'', ''deploy_file_contents'']"
proof -
  have "truthy pid"
    using assms by (cases "truthy pid") (simp_all add: registerToolsRemote_def)
  then have "ts = filter (permits f) [''list_services'', ''get_service'', ''get_service_log'',
      ''get_logs'', ''get_log_resource_types'', ''deploy_file_contents'']"
    using assms by (simp add: registerToolsRemote_def)
  then show ?thesis
    by (simp only: in_filter_iff)
qed

lemma registerToolsRemote_truthy:
  "truthy pid \<Longrightarrow> \<exists>ts. registerToolsRemote pid f = Inr ts"
  by (simp add: registerToolsRemote_def)

lemma getServer_Inr:
  assumes "getServer enabledTools disabledTools stdio envProjectId gcpProject = Inr ts"
  shows "createToolFilter enabledTools disabledTools (\<not> stdio \<and> truthy gcpProject)
           = Inr (shouldRegisterTool enabledTools disabledTools)
         \<and> (t \<in> set ts \<longrightarrow> shouldRegisterTool enabledTools disabledTools t)"
proof -
  let ?r = "\<not> stdio \<and> truthy gcpProject"
  obtain f where f: "createToolFilter enabledTools disabledTools ?r = Inr f"
    using assms by (auto simp: getServer_def Let_def split: sum.splits)
  then have feq: "f = shouldRegisterTool enabledTools disabledTools"
    by (rule createToolFilter_Inr)
  have "t \<in> set ts \<longrightarrow> f t"
  proof (cases "stdio \<or> \<not> truthy gcpProject")
    case True
    then have "ts = registerTools (Some f)"
      using assms f by (auto simp: getServer_def Let_def)
    then show ?thesis by (simp add: registerTools_iff permits_def)
  next
    case False
    then have "\<exists>pid. registerToolsRemote pid (Some f) = Inr ts"
      using assms f by (auto simp: getServer_def Let_def)
    then show ?thesis using registerToolsRemote_iff by (fastforce simp: permits_def)
  qed
  with f feq show ?thesis by simp
qed

lemma allow_list_excludes:
  assumes "elems enabledTools \<noteq> []"
    and "createToolFilter enabledTools disabledTools isRemote = Inr f"
    and "t \<notin> set (availableTools isRemote)"
  shows "\<not> shouldRegisterTool enabledTools disabledTools t"
proof -
  have "invalidTools isRemote (elems enabledTools) = []"
    using assms(1,2) by (simp add: createToolFilter_def split: if_splits)
  then have "t \<notin> set (elems enabledTools)"
    using assms(3) by (auto simp: invalidTools_def filter_empty_conv)
  then show ?thesis
    using assms(1) by (simp add: shouldRegisterTool_def)
qed

lemma getServer_no_lists:
  assumes "elems enabledTools = []" "elems disabledTools = []"
  shows "\<exists>ts. getServer enabledTools disabledTools stdio envProjectId gcpProject = Inr ts
           \<and> ''get_logs'' \<in> set ts \<and> ''get_log_resource_types'' \<in> set ts"
proof -
  let ?f = "shouldRegisterTool enabledTools disabledTools"
  have f: "createToolFilter enabledTools disabledTools r = Inr ?f" for r
    using assms by (simp add: createToolFilter_def)
  have all: "permits (Some ?f) t" for t
    using assms by (simp add: permits_def shouldRegisterTool_def)
  show ?thesis
  proof (cases "stdio \<or> \<not> truthy gcpProject")
    case True
    then have "getServer enabledTools disabledTools stdio envProjectId gcpProject
                 = Inr (registerTools (Some ?f))"
      using f by (auto simp: getServer_def Let_def)
    then show ?thesis
      using all by (simp add: registerTools_iff)
  next
    case False
    let ?pid = "if truthy envProjectId then envProjectId else gcpProject"
    have "truthy ?pid" using False by simp
    then obtain ts where ts: "registerToolsRemote ?pid (Some ?f) = Inr ts"
      using registerToolsRemote_truthy by blast
    have "getServer enabledTools disabledTools stdio envProjectId gcpProject = Inr ts"
      using False f ts by (auto simp: getServer_def Let_def)
    then show ?thesis
      using all registerToolsRemote_iff [OF ts] by simp
  qed
qed

lemma createToolFilter_rejects_invalid_aux:
  assumes "\<exists>n \<in> set (elems enabledTools) \<union> set (elems disabledTools).
             n \<notin> set (availableTools isRemote)"
  shows "\<exists>msg. createToolFilter enabledTools disabledTools isRemote = Inl (Error msg)"
  using assms by (auto simp: createToolFilter_def invalidTools_def filter_empty_conv)

text \<open>
  C10. \<open>get_logs\<close> and \<open>get_log_resource_types\<close> are in neither catalog. Both
  registration functions register them whenever the filter is absent or permits them, so
  a server started with no list registers both, in the local and in the remote mode.
  With a non-empty \<open>enabledTools\<close> a server that starts registers neither: naming one of
  them in a list makes \<open>createToolFilter\<close> throw, and an accepted allow-list does not
  hold them.
\<close>

theorem log_tools_outside_catalogs:
  "''get_logs'' \<notin> set LOCAL_TOOLS \<and> ''get_logs'' \<notin> set REMOTE_TOOLS
   \<and> ''get_log_resource_types'' \<notin> set LOCAL_TOOLS
   \<and> ''get_log_resource_types'' \<notin> set REMOTE_TOOLS
   \<and> (permits f ''get_logs'' \<longrightarrow> ''get_logs'' \<in> set (registerTools f))
   \<and> (permits f ''get_log_resource_types'' \<longrightarrow>
        ''get_log_resource_types'' \<in> set (registerTools f))
   \<and> (truthy pid \<and> permits f ''get_logs'' \<longrightarrow>
        (\<exists>ts. registerToolsRemote pid f = Inr ts \<and> ''get_logs'' \<in> set ts))
   \<and> (truthy pid \<and> permits f ''get_log_resource_types'' \<longrightarrow>
        (\<exists>ts. registerToolsRemote pid f = Inr ts \<and> ''get_log_resource_types'' \<in> set ts))
   \<and> (elems enabledTools = [] \<and> elems disabledTools = [] \<longrightarrow>
        (\<exists>ts. getServer enabledTools disabledTools stdio envProjectId gcpProject = Inr ts
           \<and> ''get_logs'' \<in> set ts \<and> ''get_log_resource_types'' \<in> set ts))
   \<and> (elems enabledTools \<noteq> [] \<longrightarrow>
        (\<forall>ts. getServer enabledTools disabledTools stdio envProjectId gcpProject = Inr ts \<longrightarrow>
           ''get_logs'' \<notin> set ts \<and> ''get_log_resource_types'' \<notin> set ts))
   \<and> ((t = ''get_logs'' \<or> t = ''get_log_resource_types'') \<and>
       (t \<in> set (elems enabledTools) \<or> t \<in> set (elems disabledTools)) \<longrightarrow>
        (\<exists>msg. createToolFilter enabledTools disabledTools isRemote = Inl (Error msg)))"
proof -
  have c1: "''get_logs'' \<notin> set LOCAL_TOOLS" and c2: "''get_logs'' \<notin> set REMOTE_TOOLS"
    and c3: "''get_log_resource_types'' \<notin> set LOCAL_TOOLS"
    and c4: "''get_log_resource_types'' \<notin> set REMOTE_TOOLS"
    by (simp_all add: LOCAL_TOOLS_def REMOTE_TOOLS_def)
  have l1: "permits f ''get_logs'' \<longrightarrow> ''get_logs'' \<in> set (registerTools f)"
    and l2: "permits f ''get_log_resource_types'' \<longrightarrow>
        ''get_log_resource_types'' \<in> set (registerTools f)"
    by (simp_all add: registerTools_def)
  have r1: "truthy pid \<and> permits f ''get_logs'' \<longrightarrow>
        (\<exists>ts. registerToolsRemote pid f = Inr ts \<and> ''get_logs'' \<in> set ts)"
    and r2: "truthy pid \<and> permits f ''get_log_resource_types'' \<longrightarrow>
        (\<exists>ts. registerToolsRemote pid f = Inr ts \<and> ''get_log_resource_types'' \<in> set ts)"
    by (simp_all add: registerToolsRemote_def)
  have none: "elems enabledTools = [] \<and> elems disabledTools = [] \<longrightarrow>
        (\<exists>ts. getServer enabledTools disabledTools stdio envProjectId gcpProject = Inr ts
           \<and> ''get_logs'' \<in> set ts \<and> ''get_log_resource_types'' \<in> set ts)"
    using getServer_no_lists by blast
  have allow: "elems enabledTools \<noteq> [] \<longrightarrow>
        (\<forall>ts. getServer enabledTools disabledTools stdio envProjectId gcpProject = Inr ts \<longrightarrow>
           ''get_logs'' \<notin> set ts \<and> ''get_log_resource_types'' \<notin> set ts)"
  proof (intro impI allI)
    fix ts
    assume ne: "elems enabledTools \<noteq> []"
      and run: "getServer enabledTools disabledTools stdio envProjectId gcpProject = Inr ts"
    note inr = getServer_Inr [OF run]
    from inr have accepted: "createToolFilter enabledTools disabledTools
        (\<not> stdio \<and> truthy gcpProject) = Inr (shouldRegisterTool enabledTools disabledTools)"
      by (rule conjunct1)
    have "\<not> shouldRegisterTool enabledTools disabledTools ''get_logs''"
      by (rule allow_list_excludes [OF ne accepted log_tools_not_available(1)])
    moreover have "\<not> shouldRegisterTool enabledTools disabledTools ''get_log_resource_types''"
      by (rule allow_list_excludes [OF ne accepted log_tools_not_available(2)])
    ultimately show "''get_logs'' \<notin> set ts \<and> ''get_log_resource_types'' \<notin> set ts"
      using getServer_Inr [OF run, of "''get_logs''"]
        getServer_Inr [OF run, of "''get_log_resource_types''"]
      by (simp only: simp_thms) 
  qed
  have named: "(t = ''get_logs'' \<or> t = ''get_log_resource_types'') \<and>
       (t \<in> set (elems enabledTools) \<or> t \<in> set (elems disabledTools)) \<longrightarrow>
        (\<exists>msg. createToolFilter enabledTools disabledTools isRemote = Inl (Error msg))"
  proof
    assume a: "(t = ''get_logs'' \<or> t = ''get_log_resource_types'') \<and>
       (t \<in> set (elems enabledTools) \<or> t \<in> set (elems disabledTools))"
    then have "t \<notin> set (availableTools isRemote)"
      using log_tools_not_available [of isRemote] by (elim conjE disjE) simp_all
    with a have "\<exists>n \<in> set (elems enabledTools) \<union> set (elems disabledTools).
             n \<notin> set (availableTools isRemote)"
      by (intro bexI [of _ t]) (simp_all only: Un_iff simp_thms)
    from createToolFilter_rejects_invalid_aux [OF this]
    show "\<exists>msg. createToolFilter enabledTools disabledTools isRemote = Inl (Error msg)" .
  qed
  show ?thesis
    by (intro conjI) (fact c1 c2 c3 c4 l1 l2 r1 r2 none allow named)+
qed

theorem log_tools_outside_catalogs_witness:
  "(\<exists>ts. getServer None None False None (Some ''my-project'') = Inr ts \<and> ''get_logs'' \<in> set ts
          \<and> ''get_log_resource_types'' \<in> set ts)
   \<and> (\<exists>ts. getServer (Some [''list_services'', ''get_service_log'']) None True None None = Inr ts
          \<and> ''get_logs'' \<notin> set ts \<and> ''get_log_resource_types'' \<notin> set ts)
   \<and> (\<exists>msg. createToolFilter (Some [''get_logs'']) None True = Inl (Error msg))
   \<and> ''get_logs'' \<in> set (registerTools None)"
proof -
  have run: "getServer (Some [''list_services'', ''get_service_log'']) None True None None
     = Inr [''list_services'', ''get_service_log'']"
    by (simp add: getServer_def createToolFilter_def elems_def invalidTools_def
        availableTools_def LOCAL_TOOLS_def registerTools_def permits_def shouldRegisterTool_def
        truthy_def)
  have listed: "elems (Some [''list_services'', ''get_service_log'']) \<noteq> []"
    by (simp add: elems_def)
  have absent: "permits None ''get_logs''"
    by (simp add: permits_def)
  show ?thesis
    using run listed absent
      log_tools_outside_catalogs [of None "None" None None False None "Some ''my-project''"
        "''get_logs''" True]
      log_tools_outside_catalogs [of None "None" "Some [''list_services'', ''get_service_log'']"
        None True None None "''get_logs''" False]
      log_tools_outside_catalogs [of None "None" "Some [''get_logs'']" None False None None
        "''get_logs''" True]
    by (auto simp: elems_def)
qed

section \<open>Evaluating dates\<close>

lemma digitsN_2:
  "digitsN 2 n = [''0123456789'' ! (n div 10 mod 10), ''0123456789'' ! (n mod 10)]"
  by (simp add: digitsN_def upt_rec)

lemma digitsN_3:
  "digitsN 3 n = [''0123456789'' ! (n div 100 mod 10), ''0123456789'' ! (n div 10 mod 10),
                  ''0123456789'' ! (n mod 10)]"
  by (simp add: digitsN_def upt_rec)

lemma digitsN_4:
  "digitsN 4 n = [''0123456789'' ! (n div 1000 mod 10), ''0123456789'' ! (n div 100 mod 10),
                  ''0123456789'' ! (n div 10 mod 10), ''0123456789'' ! (n mod 10)]"
  by (simp add: digitsN_def upt_rec)

lemmas date_defs = dateYear_def dateMonth_def dateDay_def monthFromMarch_def dayOfYear_def
  yearOfEra_def dayOfEra_def

lemma isoText_epoch: "isoText 0 = ''1970-01-01T00:00:00.000Z''"
  by (simp add: isoText_def date_defs isoYear_def digitsN_2 digitsN_3 digitsN_4)

lemma isoText_leap_day: "isoText 1709251199999 = ''2024-02-29T23:59:59.999Z''"
  by (simp add: isoText_def date_defs isoYear_def digitsN_2 digitsN_3 digitsN_4)

section \<open>The request of \<open>getLogs\<close>\<close>

lemma getLogs_request_pageSize:
  assumes "getLogs_request now options = Inr request"
  shows "req_pageSize request = min (orDefault (opt_limit options) 100) 1000"
proof -
  from assms obtain parts where "filterParts now options = Inr parts"
    by (cases "filterParts now options") (simp_all add: getLogs_request_def)
  with assms show ?thesis
    by (auto simp: getLogs_request_def)
qed

text \<open>
  C9. The page size of the request that \<open>getLogs\<close> sends is the smaller of the limit
  (100 when the limit is absent) and 1000, so it never exceeds 1000.
\<close>

theorem getLogs_pageSize_clamped:
  assumes "getLogs_request now options = Inr request"
  shows "req_pageSize request = min (case opt_limit options of None \<Rightarrow> 100 | Some l \<Rightarrow> l) 1000
         \<and> req_pageSize request \<le> 1000"
  using getLogs_request_pageSize [OF assms]
  by (simp add: orDefault_def split: option.splits)

theorem getLogs_pageSize_clamped_witness:
  "\<exists>request.
     getLogs_request 1762041600000
       \<lparr> opt_filter = None, opt_resourceType = None, opt_severity = None, opt_timeRange = None,
         opt_limit = Some 5000, opt_orderBy = None, opt_pageToken = None \<rparr> = Inr request
     \<and> req_pageSize request = 1000"
proof -
  let ?options = "\<lparr> opt_filter = None, opt_resourceType = None, opt_severity = None,
    opt_timeRange = None, opt_limit = Some 5000, opt_orderBy = None, opt_pageToken = None \<rparr>"
  obtain request where sent: "getLogs_request 1762041600000 ?options = Inr request"
    by (simp add: getLogs_request_def filterParts_def truthy_def orDefault_def)
  from getLogs_pageSize_clamped [OF sent] have "req_pageSize request = 1000"
    by simp
  with sent show ?thesis by blast
qed

section \<open>The time range and the filter of \<open>getLogs\<close>\<close>

lemma matchTimeRange_empty: "matchTimeRange [] = None"
  by (simp add: matchTimeRange_def)

lemma buildTimeRangeFilter_no_match:
  "matchTimeRange timeRange = None \<Longrightarrow> buildTimeRangeFilter now timeRange = Inr None"
  by (simp add: buildTimeRangeFilter_def)

lemma buildTimeRangeFilter_clause_nonempty:
  "buildTimeRangeFilter now timeRange = Inr (Some clause) \<Longrightarrow> clause \<noteq> []"
  by (auto simp: buildTimeRangeFilter_def Let_def split: option.splits if_splits sum.splits)

lemma matchTimeRange_Some_iff:
  "matchTimeRange timeRange = Some (amount, u) \<longleftrightarrow>
     timeRange = amount @ [u] \<and> amount \<noteq> [] \<and> list_all isDigit amount
     \<and> u \<in> {CHR ''h'', CHR ''m'', CHR ''d''}"
proof (cases timeRange rule: rev_cases)
  case Nil
  then show ?thesis by (simp add: matchTimeRange_def)
next
  case (snoc rest unit)
  then show ?thesis
    by (auto simp: matchTimeRange_def)
qed

lemma buildTimeRangeFilter_in_range:
  assumes "matchTimeRange timeRange = Some (amount, u)"
    and "\<bar>now - parseInt amount * unitMillis u\<bar> \<le> 8640000000000000"
  shows "buildTimeRangeFilter now timeRange =
           Inr (Some (''timestamp>='' @ dquote @
                      isoText (now - parseInt amount * unitMillis u) @ dquote))"
proof -
  from assms(1) have "u \<in> {CHR ''h'', CHR ''m'', CHR ''d''}"
    by (simp add: matchTimeRange_Some_iff)
  then show ?thesis
    using assms
    by (auto simp: buildTimeRangeFilter_def toISOString_def unitMillis_def Let_def mult.commute)
qed

lemma buildTimeRangeFilter_out_of_range:
  assumes "matchTimeRange timeRange = Some (amount, u)"
    and "\<bar>now - parseInt amount * unitMillis u\<bar> > 8640000000000000"
  shows "buildTimeRangeFilter now timeRange = Inl RangeError"
proof -
  from assms(1) have "u \<in> {CHR ''h'', CHR ''m'', CHR ''d''}"
    by (simp add: matchTimeRange_Some_iff)
  then show ?thesis
    using assms
    by (auto simp: buildTimeRangeFilter_def toISOString_def unitMillis_def Let_def mult.commute)
qed

lemma filterParts_supplied:
  assumes "buildTimeRangeFilter now (elems (opt_timeRange options)) = Inr timeClause"
  shows "filterParts now options = Inr (suppliedClauses options timeClause)"
proof -
  have first: "(if truthy (opt_filter options)
                then [''('' @ elems (opt_filter options) @ '')''] else [])
      = (case opt_filter options of Some (c # cs) \<Rightarrow> [''('' @ c # cs @ '')''] | _ \<Rightarrow> [])"
    by (simp add: truthy_def elems_def split: option.splits list.splits)
  have second: "(if truthy (opt_resourceType options)
                 then [''resource.type='' @ dquote @ elems (opt_resourceType options) @ dquote]
                 else [])
      = (case opt_resourceType options of
           Some (c # cs) \<Rightarrow> [''resource.type='' @ dquote @ c # cs @ dquote] | _ \<Rightarrow> [])"
    by (simp add: truthy_def elems_def split: option.splits list.splits)
  have third: "(if orDefault (opt_severity options) ''DEFAULT'' \<noteq> []
                   \<and> orDefault (opt_severity options) ''DEFAULT'' \<noteq> ''DEFAULT''
                then [''severity>='' @ orDefault (opt_severity options) ''DEFAULT''] else [])
      = (case opt_severity options of
           Some (c # cs) \<Rightarrow> if c # cs = ''DEFAULT'' then [] else [''severity>='' @ c # cs]
         | _ \<Rightarrow> [])"
    by (simp add: orDefault_def split: option.splits list.splits)
  have fourth: "(if truthy (opt_timeRange options) then
           (case buildTimeRangeFilter now (elems (opt_timeRange options)) of
              Inl e \<Rightarrow> Inl e
            | Inr None \<Rightarrow> Inr parts
            | Inr (Some timeFilter) \<Rightarrow>
                if timeFilter \<noteq> [] then Inr (parts @ [timeFilter]) else Inr parts)
         else Inr parts)
      = Inr (parts @ (case timeClause of None \<Rightarrow> [] | Some c \<Rightarrow> [c]))" for parts
  proof (cases "truthy (opt_timeRange options)")
    case True
    then show ?thesis
      using assms buildTimeRangeFilter_clause_nonempty [of now "elems (opt_timeRange options)"]
      by (simp split: option.splits)
  next
    case False
    then have "elems (opt_timeRange options) = []"
      by (simp add: truthy_def elems_def split: option.splits)
    then have "timeClause = None"
      using assms by (simp add: buildTimeRangeFilter_no_match matchTimeRange_empty)
    with False show ?thesis by simp
  qed
  show ?thesis
    unfolding filterParts_def Let_def suppliedClauses_def first second third fourth
    by simp
qed

text \<open>
  C2 (amended). Whenever the time range is handled without an exception, \<open>getLogs\<close> sends
  as filter the clauses joined by \<open>AND\<close>, in the order filter, resource type, severity,
  time range, with a clause for each option that is present and not the empty string
  (and, for the severity, not \<open>DEFAULT\<close>); the time-range clause is the one
  \<open>buildTimeRangeFilter\<close> gives: none when the time range does not match the pattern, and
  the lower bound at the start instant when it does. Without any clause the filter is the
  empty string. When no option is the empty string, these are the clauses of all the
  options that are present.
\<close>

theorem getLogs_filter_supplied:
  assumes "buildTimeRangeFilter now (elems (opt_timeRange options)) = Inr timeClause"
  shows "\<exists>request. getLogs_request now options = Inr request
           \<and> req_filter request = join '' AND '' (suppliedClauses options timeClause)
           \<and> (suppliedClauses options timeClause = [] \<longrightarrow> req_filter request = [])
           \<and> (opt_filter options \<noteq> Some [] \<and> opt_resourceType options \<noteq> Some []
                \<and> opt_severity options \<noteq> Some [] \<longrightarrow>
                suppliedClauses options timeClause = claimedClauses options timeClause)
           \<and> (matchTimeRange (elems (opt_timeRange options)) = None \<longrightarrow> timeClause = None)
           \<and> (\<forall>amount u. matchTimeRange (elems (opt_timeRange options)) = Some (amount, u) \<longrightarrow>
                 timeClause = Some (''timestamp>='' @ dquote @
                                    isoText (now - parseInt amount * unitMillis u) @ dquote))"
proof -
  have "getLogs_request now options =
      Inr \<lparr> req_filter = join '' AND '' (suppliedClauses options timeClause),
            req_orderBy = orDefault (opt_orderBy options) ''timestamp desc'',
            req_pageSize = min (orDefault (opt_limit options) 100) 1000,
            req_pageToken = (if truthy (opt_pageToken options)
                             then opt_pageToken options else None) \<rparr>"
    by (simp add: getLogs_request_def filterParts_supplied [OF assms])
  moreover have "matchTimeRange (elems (opt_timeRange options)) = None \<longrightarrow> timeClause = None"
    using assms by (auto simp: buildTimeRangeFilter_no_match)
  moreover have "opt_filter options \<noteq> Some [] \<and> opt_resourceType options \<noteq> Some []
      \<and> opt_severity options \<noteq> Some [] \<longrightarrow>
      suppliedClauses options timeClause = claimedClauses options timeClause"
    by (simp add: suppliedClauses_def claimedClauses_def split: option.splits list.splits)
  moreover have "\<forall>amount u. matchTimeRange (elems (opt_timeRange options)) = Some (amount, u) \<longrightarrow>
      timeClause = Some (''timestamp>='' @ dquote @
                         isoText (now - parseInt amount * unitMillis u) @ dquote)"
  proof (intro allI impI)
    fix amount u
    assume matched: "matchTimeRange (elems (opt_timeRange options)) = Some (amount, u)"
    show "timeClause = Some (''timestamp>='' @ dquote @
                             isoText (now - parseInt amount * unitMillis u) @ dquote)"
    proof (cases "\<bar>now - parseInt amount * unitMillis u\<bar> \<le> 8640000000000000")
      case True
      from buildTimeRangeFilter_in_range [OF matched True] assms show ?thesis
        by simp
    next
      case False
      then have "\<bar>now - parseInt amount * unitMillis u\<bar> > 8640000000000000"
        by simp
      from buildTimeRangeFilter_out_of_range [OF matched this] assms show ?thesis
        by simp
    qed
  qed
  ultimately show ?thesis
    by auto
qed

lemma timeRange_1h:
  "buildTimeRangeFilter 1762041600000 ''1h''
     = Inr (Some (''timestamp>='' @ dquote @ ''2025-11-01T23:00:00.000Z'' @ dquote))"
proof -
  have "matchTimeRange ''1h'' = Some (''1'', CHR ''h'')"
    by (simp add: matchTimeRange_def isDigit_def)
  moreover have "parseInt ''1'' = 1"
    by (simp add: parseInt_def)
  moreover have "isoText 1762038000000 = ''2025-11-01T23:00:00.000Z''"
    by (simp add: isoText_def date_defs isoYear_def digitsN_2 digitsN_3 digitsN_4)
  ultimately show ?thesis
    by (simp add: buildTimeRangeFilter_def toISOString_def)
qed

theorem getLogs_filter_supplied_witness:
  "\<exists>request.
     getLogs_request 1762041600000
       \<lparr> opt_filter = Some ''foo'', opt_resourceType = Some ''cloud_run_revision'',
         opt_severity = Some ''ERROR'', opt_timeRange = Some ''1h'',
         opt_limit = None, opt_orderBy = None, opt_pageToken = None \<rparr> = Inr request
     \<and> req_filter request =
         ''(foo) AND resource.type='' @ dquote @ ''cloud_run_revision'' @ dquote @
         '' AND severity>=ERROR AND timestamp>='' @ dquote @ ''2025-11-01T23:00:00.000Z'' @ dquote"
proof -
  let ?options = "\<lparr> opt_filter = Some ''foo'', opt_resourceType = Some ''cloud_run_revision'',
         opt_severity = Some ''ERROR'', opt_timeRange = Some ''1h'',
         opt_limit = None, opt_orderBy = None, opt_pageToken = None \<rparr>"
  have "buildTimeRangeFilter 1762041600000 (elems (opt_timeRange ?options))
     = Inr (Some (''timestamp>='' @ dquote @ ''2025-11-01T23:00:00.000Z'' @ dquote))"
    using timeRange_1h by (simp add: elems_def)
  from getLogs_filter_supplied [OF this] obtain request where
    "getLogs_request 1762041600000 ?options = Inr request"
    "req_filter request = join '' AND '' (suppliedClauses ?options
       (Some (''timestamp>='' @ dquote @ ''2025-11-01T23:00:00.000Z'' @ dquote)))"
    by blast
  then show ?thesis
    by (intro exI [of _ request]) (simp add: suppliedClauses_def dquote_def)
qed

theorem getLogs_filter_empty_string_counterexample:
  "\<exists>request.
     getLogs_request 1762041600000
       \<lparr> opt_filter = Some [], opt_resourceType = None, opt_severity = None,
         opt_timeRange = None, opt_limit = None, opt_orderBy = None, opt_pageToken = None \<rparr>
       = Inr request
     \<and> req_filter request = []
     \<and> join '' AND ''
           (claimedClauses
              \<lparr> opt_filter = Some [], opt_resourceType = None, opt_severity = None,
                opt_timeRange = None, opt_limit = None, opt_orderBy = None,
                opt_pageToken = None \<rparr> None) = ''()''"
  by (simp add: getLogs_request_def filterParts_def truthy_def orDefault_def claimedClauses_def)

section \<open>A time range that throws\<close>

lemma matches_big: "matchTimeRange ''100030000d'' = Some (''100030000'', CHR ''d'')"
  by (simp add: matchTimeRange_def isDigit_def)

lemma parse_big: "parseInt ''100030000'' = 100030000"
  by (simp add: parseInt_def)

lemma buildTimeRangeFilter_malformed:
  "buildTimeRangeFilter now ''abc'' = Inr None"
  "buildTimeRangeFilter now ''5x'' = Inr None"
  "buildTimeRangeFilter now ''h'' = Inr None"
  by (simp_all add: buildTimeRangeFilter_def matchTimeRange_def isDigit_def)

text \<open>
  C4. A time range that does not match the pattern gives no clause and no exception
  (\<open>buildTimeRangeFilter_no_match\<close>), and one that matches gives the clause of the start
  instant as long as that instant is a valid date (\<open>buildTimeRangeFilter_in_range\<close>). A
  token with a large amount matches the pattern as well, and there the source throws: at
  the instant 2025-11-02T00:00:00Z the time range \<open>100030000d\<close> makes
  \<open>buildTimeRangeFilter\<close> throw a \<open>RangeError\<close>, since the start instant is below the
  least time value of a \<open>Date\<close>, and \<open>getLogs\<close> throws with it.
\<close>

theorem buildTimeRangeFilter_throws:
  "buildTimeRangeFilter 1762041600000 ''100030000d'' = Inl RangeError
   \<and> getLogs_request 1762041600000
       \<lparr> opt_filter = None, opt_resourceType = None, opt_severity = None,
         opt_timeRange = Some ''100030000d'', opt_limit = None, opt_orderBy = None,
         opt_pageToken = None \<rparr> = Inl RangeError"
proof -
  have "buildTimeRangeFilter 1762041600000 ''100030000d'' = Inl RangeError"
    by (rule buildTimeRangeFilter_out_of_range [OF matches_big])
      (simp add: parse_big unitMillis_def)
  then show ?thesis
    by (simp add: getLogs_request_def filterParts_def truthy_def elems_def orDefault_def)
qed

section \<open>Splitting and trimming\<close>

lemma split_str_not_Nil: "split_str sep s \<noteq> []"
  by (induction s) (auto split: list.splits)

lemma split_str_no_sep: "p \<in> set (split_str sep s) \<Longrightarrow> sep \<notin> set p"
proof (induction s arbitrary: p)
  case Nil
  then show ?case by simp
next
  case (Cons c cs)
  show ?case
  proof (cases "c = sep")
    case True
    with Cons show ?thesis by auto
  next
    case False
    obtain q qs where q: "split_str sep cs = q # qs"
      using split_str_not_Nil [of sep cs] by (cases "split_str sep cs") auto
    with False Cons.prems have "p = c # q \<or> p \<in> set qs"
      by simp
    then show ?thesis
      using False Cons.IH q by auto
  qed
qed

lemma split_str_append:
  assumes "sep \<notin> set n"
  shows "split_str sep (n @ sep # rest) = n # split_str sep rest"
  using assms
proof (induction n)
  case Nil
  then show ?case by simp
next
  case (Cons c cs)
  then show ?case by auto
qed

lemma split_str_plain:
  assumes "sep \<notin> set n"
  shows "split_str sep n = [n]"
  using assms by (induction n) auto

lemma split_str_join:
  assumes "names \<noteq> []" and "\<forall>n \<in> set names. sep \<notin> set n"
  shows "split_str sep (join [sep] names) = names"
  using assms
proof (induction "[sep]" names rule: join.induct)
  case 1
  then show ?case by simp
next
  case (2 x)
  then show ?case by (simp add: split_str_plain)
next
  case (3 x y ys)
  then show ?case by (simp add: split_str_append)
qed

lemma set_trim: "set (trim s) \<subseteq> set s"
proof
  fix x
  assume "x \<in> set (trim s)"
  then have "x \<in> set (dropWhile isWhiteSpace (rev (dropWhile isWhiteSpace s)))"
    by (simp add: trim_def)
  then have "x \<in> set (rev (dropWhile isWhiteSpace s))"
    by (rule set_dropWhileD)
  then have "x \<in> set (dropWhile isWhiteSpace s)"
    by simp
  then show "x \<in> set s"
    by (rule set_dropWhileD)
qed

lemma last_dropWhile:
  "dropWhile P xs \<noteq> [] \<Longrightarrow> last (dropWhile P xs) = last xs"
  by (induction xs) (auto split: if_splits)

lemma trim_ends:
  assumes "trim s \<noteq> []"
  shows "\<not> isWhiteSpace (hd (trim s)) \<and> \<not> isWhiteSpace (last (trim s))"
proof -
  let ?a = "dropWhile isWhiteSpace s"
  let ?b = "dropWhile isWhiteSpace (rev ?a)"
  from assms have b: "?b \<noteq> []" by (simp add: trim_def)
  have a: "?a \<noteq> []"
  proof
    assume "?a = []"
    then have "?b = []" by (simp only: rev.simps(1) dropWhile.simps(1))
    with b show False by (simp only: not_False_eq_True)
  qed
  have "last (trim s) = hd ?b"
    using b by (simp add: trim_def last_rev)
  moreover have "\<not> isWhiteSpace (hd ?b)"
    using b by (rule hd_dropWhile)
  moreover have "hd (trim s) = last ?b"
    using b by (simp add: trim_def hd_rev)
  moreover have "last ?b = last (rev ?a)"
    using b by (rule last_dropWhile)
  moreover have "last (rev ?a) = hd ?a"
    using a by (simp add: last_rev)
  moreover have "\<not> isWhiteSpace (hd ?a)"
    using a by (rule hd_dropWhile)
  ultimately show ?thesis by simp
qed

lemma trim_id:
  assumes "s \<noteq> []" "\<not> isWhiteSpace (hd s)" "\<not> isWhiteSpace (last s)"
  shows "trim s = s"
proof -
  have "dropWhile isWhiteSpace s = s"
    using assms(1,2) by (cases s) auto
  moreover have "dropWhile isWhiteSpace (rev s) = rev s"
    using assms(1,3) by (cases "rev s") (auto simp: last_rev [symmetric] hd_rev)
  ultimately show ?thesis by (simp add: trim_def)
qed

text \<open>A clean name: not empty, without comma, without white space at either end.\<close>

lemma tokens_clean:
  assumes "t \<in> set (tokens (Given v))"
  shows "t \<noteq> [] \<and> CHR '','' \<notin> set t \<and> \<not> isWhiteSpace (hd t) \<and> \<not> isWhiteSpace (last t)"
proof -
  from assms obtain p where p: "p \<in> set (split_str CHR '','' v)" and t: "t = trim p" "t \<noteq> []"
    by auto
  have "CHR '','' \<notin> set t"
    using split_str_no_sep [OF p] set_trim [of p] t by auto
  with t trim_ends [of p] show ?thesis by simp
qed

lemma tokens_join:
  assumes "names \<noteq> []"
    and "\<forall>n \<in> set names. n \<noteq> [] \<and> CHR '','' \<notin> set n
           \<and> \<not> isWhiteSpace (hd n) \<and> \<not> isWhiteSpace (last n)"
  shows "tokens (Given (join '','' names)) = names"
proof -
  have "split_str CHR '','' (join '','' names) = names"
    using assms by (simp add: split_str_join)
  moreover have "map trim names = names"
    using assms(2) by (simp add: trim_id map_idI)
  moreover have "filter (\<lambda>t. t \<noteq> []) names = names"
    using assms(2) by simp
  ultimately show ?thesis by simp
qed

section \<open>The command line\<close>

lemma toolList_once:
  assumes "\<forall>vs. v \<noteq> Repeated vs"
  shows "toolList v = Inr (expectedList v) \<and> elems (expectedList v) = tokens v"
proof (cases v)
  case Absent
  then show ?thesis by (simp add: toolList_def elems_def)
next
  case (Given s)
  then show ?thesis
    by (cases s) (simp_all add: toolList_def elems_def toolNames_def trim_def)
next
  case (Repeated vs)
  with assms show ?thesis by simp
qed

lemma both_flags_named:
  "sublist ''--enabled-tools''
     ''Cannot specify both --enabled-tools and --disabled-tools. Please use only one.''"
  "sublist ''--disabled-tools''
     ''Cannot specify both --enabled-tools and --disabled-tools. Please use only one.''"
proof -
  have "''Cannot specify both --enabled-tools and --disabled-tools. Please use only one.''
      = ''Cannot specify both '' @ ''--enabled-tools'' @
        '' and --disabled-tools. Please use only one.''"
    by simp
  then show "sublist ''--enabled-tools''
     ''Cannot specify both --enabled-tools and --disabled-tools. Please use only one.''"
    by (simp only: sublist_appendI)
  have "''Cannot specify both --enabled-tools and --disabled-tools. Please use only one.''
      = ''Cannot specify both --enabled-tools and '' @ ''--disabled-tools'' @
        ''. Please use only one.''"
    by simp
  then show "sublist ''--disabled-tools''
     ''Cannot specify both --enabled-tools and --disabled-tools. Please use only one.''"
    by (simp only: sublist_appendI)
qed

lemma parseCliArgs_once:
  assumes "\<forall>vs. enabledArg \<noteq> Repeated vs" and "\<forall>vs. disabledArg \<noteq> Repeated vs"
  shows "parseCliArgs enabledArg disabledArg =
           (if tokens enabledArg \<noteq> [] \<and> tokens disabledArg \<noteq> [] then
              Inl (Error ''Cannot specify both --enabled-tools and --disabled-tools. Please use only one.'')
            else Inr (expectedList enabledArg, expectedList disabledArg))"
  using toolList_once [OF assms(1)] toolList_once [OF assms(2)]
  by (simp add: parseCliArgs_def)

text \<open>
  C8 (amended). When each of the two options is on the command line at most once,
  \<open>parseCliArgs\<close> fails, with an error whose message names both flags, exactly when both
  options have a token left after splitting the value on commas, trimming each token and
  dropping the empty ones. Otherwise it returns for each option the list of these
  tokens, or \<open>null\<close> when the option is absent or its value is the empty string. (A value
  that is not empty and leaves no token gives the empty list.)
\<close>

theorem parseCliArgs_lists:
  assumes "\<forall>vs. enabledArg \<noteq> Repeated vs" and "\<forall>vs. disabledArg \<noteq> Repeated vs"
  shows "((\<exists>e. parseCliArgs enabledArg disabledArg = Inl e)
            = (tokens enabledArg \<noteq> [] \<and> tokens disabledArg \<noteq> []))
       \<and> ((\<exists>msg. parseCliArgs enabledArg disabledArg = Inl (Error msg)
                  \<and> sublist ''--enabled-tools'' msg \<and> sublist ''--disabled-tools'' msg)
            = (tokens enabledArg \<noteq> [] \<and> tokens disabledArg \<noteq> []))
       \<and> (\<not> (tokens enabledArg \<noteq> [] \<and> tokens disabledArg \<noteq> []) \<longrightarrow>
            parseCliArgs enabledArg disabledArg
              = Inr (expectedList enabledArg, expectedList disabledArg))"
proof (cases "tokens enabledArg \<noteq> [] \<and> tokens disabledArg \<noteq> []")
  case True
  then have "parseCliArgs enabledArg disabledArg =
      Inl (Error ''Cannot specify both --enabled-tools and --disabled-tools. Please use only one.'')"
    using parseCliArgs_once [OF assms] by simp
  with True both_flags_named show ?thesis
    by simp
next
  case False
  then have "parseCliArgs enabledArg disabledArg
      = Inr (expectedList enabledArg, expectedList disabledArg)"
    using parseCliArgs_once [OF assms] by simp
  with False show ?thesis
    by simp
qed

lemma trim_example: "trim '' get_service'' = ''get_service''"
  by (simp add: trim_def isWhiteSpace_def)

theorem parseCliArgs_lists_witness:
  "parseCliArgs (Given ''list_services, get_service'') Absent
     = Inr (Some [''list_services'', ''get_service''], None)
   \<and> (\<exists>msg. parseCliArgs (Given ''list_services'') (Given ''get_service'') = Inl (Error msg)
          \<and> sublist ''--enabled-tools'' msg \<and> sublist ''--disabled-tools'' msg)"
proof -
  have once: "\<forall>vs. Given ''list_services, get_service'' \<noteq> Repeated vs" "\<forall>vs. Absent \<noteq> Repeated vs"
    "\<forall>vs. Given ''list_services'' \<noteq> Repeated vs" "\<forall>vs. Given ''get_service'' \<noteq> Repeated vs"
    by simp_all
  have t1: "tokens (Given ''list_services, get_service'') = [''list_services'', ''get_service'']"
    by (simp add: trim_def isWhiteSpace_def)
  have t2: "tokens (Given ''list_services'') = [''list_services'']"
    by (simp add: trim_def isWhiteSpace_def)
  have t3: "tokens (Given ''get_service'') = [''get_service'']"
    by (simp add: trim_def isWhiteSpace_def)
  show ?thesis
    using parseCliArgs_lists [OF once(1,2)] parseCliArgs_lists [OF once(3,4)]
    by (simp only: t1 t2 t3 expectedList.simps) simp
qed

theorem parseCliArgs_empty_list_counterexample:
  "parseCliArgs (Given '','') Absent = Inr (Some [], None)"
  by (simp add: parseCliArgs_def toolList_def toolNames_def trim_def elems_def)

lemma parseCliArgs_repeated:
  "parseCliArgs (Repeated vs) disabledArg = Inl TypeError"
  "\<forall>ws. enabledArg \<noteq> Repeated ws \<Longrightarrow> parseCliArgs enabledArg (Repeated vs) = Inl TypeError"
proof -
  show "parseCliArgs (Repeated vs) disabledArg = Inl TypeError"
    by (simp add: parseCliArgs_def toolList_def)
  show "parseCliArgs enabledArg (Repeated vs) = Inl TypeError" if "\<forall>ws. enabledArg \<noteq> Repeated ws"
    using toolList_once [OF that] by (simp add: parseCliArgs_def toolList_def)
qed

section \<open>The table of log entries\<close>

lemma fold_max_Max:
  fixes a :: nat
  shows "fold max xs a = Max (insert a (set xs))"
  using Max.set_eq_fold [of a xs] by simp

lemma colWidth_Max:
  "colWidth rows i = Max (insert (length (headers ! i)) ((\<lambda>row. length (row ! i)) ` set rows))"
  by (simp add: colWidth_def fold_max_Max)

lemma colWidth_header: "length (headers ! i) \<le> colWidth rows i"
  by (simp add: colWidth_Max)

lemma colWidth_cell: "row \<in> set rows \<Longrightarrow> length (row ! i) \<le> colWidth rows i"
  by (simp add: colWidth_Max)

lemma colWidths_four:
  "colWidths rows = [colWidth rows 0, colWidth rows 1, colWidth rows 2, colWidth rows 3]"
  by (simp add: colWidths_def headers_def upt_rec numeral_2_eq_2 numeral_3_eq_3)

lemma length_padEnd: "length (padEnd s n) = max n (length s)"
  by (simp add: padEnd_def)

lemma tableLine_four:
  "tableLine [w0, w1, w2, w3] [c0, c1, c2, c3] =
     padEnd c0 w0 @ '' | '' @ padEnd c1 w1 @ '' | '' @ padEnd c2 w2 @ '' | '' @ padEnd c3 w3"
  by (simp add: tableLine_def)

lemma tableRow_four:
  "\<exists>c0 c1 c2 c3. tableRow entry = [c0, c1, c2, c3]"
  by (simp add: tableRow_def)

lemma length_tableLine:
  assumes "length (c0::string) \<le> w0" "length (c1::string) \<le> w1" "length (c2::string) \<le> w2" "length (c3::string) \<le> w3"
  shows "length (tableLine [w0, w1, w2, w3] [c0, c1, c2, c3]) = w0 + w1 + w2 + w3 + 9"
  using assms by (simp add: tableLine_four length_padEnd)

lemma colWidths_nth:
  assumes "i < 4"
  shows "colWidths (map tableRow logEntries) ! i =
           Max (insert (length (headers ! i))
                  ((\<lambda>entry. length (tableRow entry ! i)) ` set logEntries))"
proof -
  have len: "length headers = 4"
    by (simp add: headers_def)
  have "[0..<4] ! i = 0 + i"
    using assms by (intro nth_upt) simp
  moreover have "map (colWidth (map tableRow logEntries)) [0..<4] ! i
      = colWidth (map tableRow logEntries) ([0..<4] ! i)"
    using assms by (intro nth_map) simp
  ultimately have "colWidths (map tableRow logEntries) ! i = colWidth (map tableRow logEntries) i"
    by (simp only: colWidths_def len add_0)
  also have "\<dots> = Max (insert (length (headers ! i))
      ((\<lambda>row. length (row ! i)) ` set (map tableRow logEntries)))"
    by (rule colWidth_Max)
  also have "(\<lambda>row. length (row ! i)) ` set (map tableRow logEntries)
      = (\<lambda>entry. length (tableRow entry ! i)) ` set logEntries"
    by (simp add: image_image)
  finally show ?thesis .
qed

lemma formatLogsAsTable_lines:
  assumes "logEntries \<noteq> []"
  shows "formatLogsAsTable logEntries =
           join newline
             (tableLine (colWidths (map tableRow logEntries)) headers #
              separator (colWidths (map tableRow logEntries)) #
              map (\<lambda>entry. tableLine (colWidths (map tableRow logEntries)) (tableRow entry))
                logEntries)"
  using assms by (simp add: formatLogsAsTable_def Let_def comp_def)

lemma table_cells:
  assumes "cells = headers \<or> cells \<in> tableRow ` set logEntries"
  shows "\<exists>c0 c1 c2 c3. cells = [c0, c1, c2, c3]
           \<and> length c0 \<le> colWidth (map tableRow logEntries) 0
           \<and> length c1 \<le> colWidth (map tableRow logEntries) 1
           \<and> length c2 \<le> colWidth (map tableRow logEntries) 2
           \<and> length c3 \<le> colWidth (map tableRow logEntries) 3"
proof -
  let ?rows = "map tableRow logEntries"
  have "\<exists>c0 c1 c2 c3. cells = [c0, c1, c2, c3]"
    using assms by (auto simp: headers_def tableRow_def)
  then obtain c0 c1 c2 c3 where cells: "cells = [c0, c1, c2, c3]"
    by blast
  have "length (cells ! i) \<le> colWidth ?rows i" for i
  proof (cases "cells = headers")
    case True
    then show ?thesis by (simp add: colWidth_header)
  next
    case False
    with assms have "cells \<in> set ?rows" by simp
    then show ?thesis by (rule colWidth_cell)
  qed
  from this [of 0] this [of 1] this [of 2] this [of 3] cells show ?thesis
    by simp
qed

text \<open>
  C6 (amended). For a list of entries that is not empty, the table has the four columns
  Timestamp, Severity, Resource, Message. The width of a column is the greatest length
  among its header and its cells. The timestamp cell is the first 19 characters of the
  timestamp, so it has 19 characters when the timestamp has at least 19 (an ISO text)
  and fewer otherwise (\<open>N/A\<close> stays 3 characters long). The message cell is \<open>logData\<close> cut
  at 100 characters, followed by \<open>...\<close> exactly when \<open>logData\<close> has more than 100. The text
  is the header line, the separator and one line per entry, joined by line feeds; in a
  line every cell is followed by spaces up to the width of its column and the columns
  are joined by \<open>" | "\<close>, so all these lines have the same length.
\<close>

theorem formatLogsAsTable_layout:
  assumes "logEntries \<noteq> []"
  shows "\<exists>w0 w1 w2 w3.
           colWidths (map tableRow logEntries) = [w0, w1, w2, w3]
         \<and> (\<forall>i < 4. [w0, w1, w2, w3] ! i =
               Max (insert (length (headers ! i))
                      ((\<lambda>entry. length (tableRow entry ! i)) ` set logEntries)))
         \<and> (\<forall>entry.
               tableRow entry =
                 [take 19 (timestamp entry), severity entry, resourceType entry,
                  take 100 (logData entry) @
                    (if 100 < length (logData entry) then ''...'' else [])]
             \<and> length (tableRow entry ! 0) = min 19 (length (timestamp entry)))
         \<and> formatLogsAsTable logEntries =
               join newline
                 (tableLine [w0, w1, w2, w3] headers # separator [w0, w1, w2, w3] #
                  map (\<lambda>entry. tableLine [w0, w1, w2, w3] (tableRow entry)) logEntries)
         \<and> (\<forall>cells \<in> insert headers (tableRow ` set logEntries).
               \<exists>c0 c1 c2 c3.
                 cells = [c0, c1, c2, c3]
               \<and> length c0 \<le> w0 \<and> length c1 \<le> w1 \<and> length c2 \<le> w2 \<and> length c3 \<le> w3
               \<and> tableLine [w0, w1, w2, w3] cells =
                   (c0 @ replicate (w0 - length c0) CHR '' '') @ '' | '' @
                   (c1 @ replicate (w1 - length c1) CHR '' '') @ '' | '' @
                   (c2 @ replicate (w2 - length c2) CHR '' '') @ '' | '' @
                   (c3 @ replicate (w3 - length c3) CHR '' '')
               \<and> length (tableLine [w0, w1, w2, w3] cells) = w0 + w1 + w2 + w3 + 9)"
proof -
  let ?rows = "map tableRow logEntries"
  let ?w0 = "colWidth ?rows 0" and ?w1 = "colWidth ?rows 1"
  let ?w2 = "colWidth ?rows 2" and ?w3 = "colWidth ?rows 3"
  have widths: "colWidths ?rows = [?w0, ?w1, ?w2, ?w3]"
    by (rule colWidths_four)
  have maxima: "\<forall>i < 4. [?w0, ?w1, ?w2, ?w3] ! i =
               Max (insert (length (headers ! i))
                      ((\<lambda>entry. length (tableRow entry ! i)) ` set logEntries))"
    using colWidths_nth [of _ logEntries] by (simp only: widths) blast
  have cells: "\<forall>entry. tableRow entry =
                 [take 19 (timestamp entry), severity entry, resourceType entry,
                  take 100 (logData entry) @
                    (if 100 < length (logData entry) then ''...'' else [])]
             \<and> length (tableRow entry ! 0) = min 19 (length (timestamp entry))"
    by (simp add: tableRow_def min.commute)
  have rendered: "formatLogsAsTable logEntries =
               join newline
                 (tableLine [?w0, ?w1, ?w2, ?w3] headers # separator [?w0, ?w1, ?w2, ?w3] #
                  map (\<lambda>entry. tableLine [?w0, ?w1, ?w2, ?w3] (tableRow entry)) logEntries)"
    using formatLogsAsTable_lines [OF assms] by (simp only: widths)
  have lines: "\<forall>cells \<in> insert headers (tableRow ` set logEntries).
               \<exists>c0 c1 c2 c3.
                 cells = [c0, c1, c2, c3]
               \<and> length c0 \<le> ?w0 \<and> length c1 \<le> ?w1 \<and> length c2 \<le> ?w2 \<and> length c3 \<le> ?w3
               \<and> tableLine [?w0, ?w1, ?w2, ?w3] cells =
                   (c0 @ replicate (?w0 - length c0) CHR '' '') @ '' | '' @
                   (c1 @ replicate (?w1 - length c1) CHR '' '') @ '' | '' @
                   (c2 @ replicate (?w2 - length c2) CHR '' '') @ '' | '' @
                   (c3 @ replicate (?w3 - length c3) CHR '' '')
               \<and> length (tableLine [?w0, ?w1, ?w2, ?w3] cells) = ?w0 + ?w1 + ?w2 + ?w3 + 9"
  proof
    fix cells
    assume "cells \<in> insert headers (tableRow ` set logEntries)"
    then have "cells = headers \<or> cells \<in> tableRow ` set logEntries"
      by simp
    from table_cells [OF this] obtain c0 c1 c2 c3 where c:
      "cells = [c0, c1, c2, c3]" "length c0 \<le> ?w0" "length c1 \<le> ?w1"
      "length c2 \<le> ?w2" "length c3 \<le> ?w3"
      by blast
    have "tableLine [?w0, ?w1, ?w2, ?w3] cells =
                   (c0 @ replicate (?w0 - length c0) CHR '' '') @ '' | '' @
                   (c1 @ replicate (?w1 - length c1) CHR '' '') @ '' | '' @
                   (c2 @ replicate (?w2 - length c2) CHR '' '') @ '' | '' @
                   (c3 @ replicate (?w3 - length c3) CHR '' '')"
      by (simp add: c(1) tableLine_four padEnd_def)
    moreover have "length (tableLine [?w0, ?w1, ?w2, ?w3] cells) = ?w0 + ?w1 + ?w2 + ?w3 + 9"
      unfolding c(1) using c(2-5) by (rule length_tableLine)
    ultimately show "\<exists>c0 c1 c2 c3.
                 cells = [c0, c1, c2, c3]
               \<and> length c0 \<le> ?w0 \<and> length c1 \<le> ?w1 \<and> length c2 \<le> ?w2 \<and> length c3 \<le> ?w3
               \<and> tableLine [?w0, ?w1, ?w2, ?w3] cells =
                   (c0 @ replicate (?w0 - length c0) CHR '' '') @ '' | '' @
                   (c1 @ replicate (?w1 - length c1) CHR '' '') @ '' | '' @
                   (c2 @ replicate (?w2 - length c2) CHR '' '') @ '' | '' @
                   (c3 @ replicate (?w3 - length c3) CHR '' '')
               \<and> length (tableLine [?w0, ?w1, ?w2, ?w3] cells) = ?w0 + ?w1 + ?w2 + ?w3 + 9"
      using c by blast
  qed
  from widths maxima cells rendered lines show ?thesis
    by blast
qed

theorem formatLogsAsTable_layout_witness:
  "colWidths (map tableRow
       [\<lparr> timestamp = ''2025-11-02T00:00:00.123Z'', severity = ''INFO'',
          resourceType = ''cloud_run_revision'', logData = ''hello'' \<rparr>]) = [19, 8, 18, 7]
   \<and> length (tableLine [19, 8, 18, 7]
         (tableRow \<lparr> timestamp = ''2025-11-02T00:00:00.123Z'', severity = ''INFO'',
                     resourceType = ''cloud_run_revision'', logData = ''hello'' \<rparr>)) = 61"
proof -
  let ?entry = "\<lparr> timestamp = ''2025-11-02T00:00:00.123Z'', severity = ''INFO'',
          resourceType = ''cloud_run_revision'', logData = ''hello'' \<rparr>"
  have widths: "colWidths (map tableRow [?entry]) = [19, 8, 18, 7]"
    by (simp add: tableRow_def colWidths_def colWidth_def headers_def upt_rec eval_nat_numeral)
  have "[?entry] \<noteq> []"
    by simp
  from formatLogsAsTable_layout [OF this] obtain w0 w1 w2 w3 where
    w: "colWidths (map tableRow [?entry]) = [w0, w1, w2, w3]"
    and lines: "\<forall>cells \<in> insert headers (tableRow ` set [?entry]).
       \<exists>c0 c1 c2 c3. cells = [c0, c1, c2, c3]
         \<and> length c0 \<le> w0 \<and> length c1 \<le> w1 \<and> length c2 \<le> w2 \<and> length c3 \<le> w3
         \<and> tableLine [w0, w1, w2, w3] cells =
                   (c0 @ replicate (w0 - length c0) CHR '' '') @ '' | '' @
                   (c1 @ replicate (w1 - length c1) CHR '' '') @ '' | '' @
                   (c2 @ replicate (w2 - length c2) CHR '' '') @ '' | '' @
                   (c3 @ replicate (w3 - length c3) CHR '' '')
         \<and> length (tableLine [w0, w1, w2, w3] cells) = w0 + w1 + w2 + w3 + 9"
    by blast
  from w widths have "w0 = 19" "w1 = 8" "w2 = 18" "w3 = 7"
    by simp_all
  moreover have "tableRow ?entry \<in> insert headers (tableRow ` set [?entry])"
    by simp
  from bspec [OF lines this] have "length (tableLine [w0, w1, w2, w3] (tableRow ?entry))
      = w0 + w1 + w2 + w3 + 9"
    by blast
  ultimately show ?thesis
    using widths by simp
qed

theorem formatLogsAsTable_timestamp_counterexample:
  "length (tableRow \<lparr> timestamp = ''N/A'', severity = ''INFO'', resourceType = ''unknown'',
                      logData = ''hello'' \<rparr> ! 0) = 3
   \<and> formatLogsAsTable
       [\<lparr> timestamp = ''N/A'', severity = ''INFO'', resourceType = ''unknown'',
          logData = ''hello'' \<rparr>]
     = ''Timestamp | Severity | Resource | Message'' @ newline @
       ''----------+----------+----------+--------'' @ newline @
       ''N/A       | INFO     | unknown  | hello  ''"
  by (simp add: formatLogsAsTable_def tableRow_def colWidths_def colWidth_def headers_def
      tableLine_def padEnd_def separator_def newline_def upt_rec Let_def eval_nat_numeral)

section \<open>The pages of \<open>get_service_log\<close>\<close>



lemma serviceLogsLoop_throws:
  assumes "getServiceLogs st requestOpts = (Inl message, st')"
  shows "serviceLogsLoop getServiceLogs context st requestOpts allLogs calls =
           Some (''Error getting Logs for '' @ context @ '': '' @ message,
                 calls @ [requestOpts], st')"
  using assms
  by (subst serviceLogsLoop.simps) simp






section \<open>Validation in the handlers\<close>

lemma deploy_local_files_caught:
  assumes "fs \<noteq> []"
  shows "\<exists>text. deploy_local_files deploy skipIam (Some p) region service (Some fs) = Inr text"
  using assms by (simp add: deploy_local_files_def split: sum.splits)

lemma get_log_resource_types_payload:
  "\<exists>text. get_log_resource_types getResourceTypes project = Inr text"
  by (simp add: get_log_resource_types_def split: option.splits sum.splits)

text \<open>
  C5. The handlers of the deployment tools check their arguments before the \<open>try\<close> block
  and throw: called with a project and an empty array of files, \<open>deploy_local_files\<close> and
  \<open>deploy_file_contents\<close> throw an error and return no payload, and so they do for a
  project that is not a string. \<open>get_log_resource_types\<close>, registered next to them, answers a
  project that is not a string with an error payload.
\<close>

theorem deploy_handlers_throw:
  "deploy_local_files deploy skipIam (Some ''my-project'') region service (Some [])
     = Inl (Error ''No files specified for deployment'')
   \<and> deploy_file_contents deploy' skipIam (Some ''my-project'') region service (Some [])
     = Inl (Error ''No files specified for deployment'')
   \<and> deploy_local_files deploy skipIam None region service files
     = Inl (Error ''Project must specified, please prompt the user for a valid existing Google Cloud project ID.'')
   \<and> get_log_resource_types getResourceTypes None = Inr ''Error: Project ID must be provided.''"
  by (simp add: deploy_local_files_def deploy_file_contents_def get_log_resource_types_def)

end
